theory Spec2Isabelle
  imports Complex_Main "HOL-Library.Word"
begin

unbundle bit_operations_syntax

section \<open>The step-control handle of hivemind's averager (averaging/control.py)\<close>

text \<open>
  \<^verbatim>\<open>StepControl\<close> is a cross-process future with an 18-byte shared-memory tensor that
  holds four fields (scheduled time, weight, stage, began-allreduce) and an attached
  trigger future. The model keeps the bytes of the tensor, the handle's attributes and
  every \<^verbatim>\<open>raise\<close> of the accessors.
\<close>

subsection \<open>Python floats\<close>

text \<open>
  A Python float is an IEEE-754 binary64. It is kept as its 64-bit pattern, which is
  what \<^verbatim>\<open>struct.pack("d", x)\<close> writes; \<open>valof\<close> reads the pattern as a number, an
  infinity or a NaN.
\<close>

type_synonym byte = "8 word"
type_synonym float64 = "64 word"

datatype fval = NaN | NInf | Fin real | PInf

definition float_sign :: "float64 \<Rightarrow> bool" where
  "float_sign x = bit x 63"

definition float_exponent :: "float64 \<Rightarrow> nat" where
  "float_exponent x = unat (take_bit 11 (drop_bit 52 x))"

definition float_fraction :: "float64 \<Rightarrow> nat" where
  "float_fraction x = unat (take_bit 52 x)"

definition valof :: "float64 \<Rightarrow> fval" where
  "valof x =
     (let s = (if float_sign x then - 1 else 1); e = float_exponent x; f = float_fraction x
      in if e = 2047 then (if f = 0 then (if float_sign x then NInf else PInf) else NaN)
         else if e = 0 then Fin (s * real f / 2 ^ 1074)
         else Fin (s * real (2 ^ 52 + f) * 2 ^ e / 2 ^ 1075))"

text \<open>The comparisons of IEEE-754: a NaN is unordered, so every comparison with it is false.\<close>

fun fval_le :: "fval \<Rightarrow> fval \<Rightarrow> bool" where
  "fval_le NaN _ = False"
| "fval_le _ NaN = False"
| "fval_le NInf _ = True"
| "fval_le _ PInf = True"
| "fval_le (Fin a) (Fin b) = (a \<le> b)"
| "fval_le _ _ = False"

fun fval_lt :: "fval \<Rightarrow> fval \<Rightarrow> bool" where
  "fval_lt NaN _ = False"
| "fval_lt _ NaN = False"
| "fval_lt (Fin a) (Fin b) = (a < b)"
| "fval_lt NInf NInf = False"
| "fval_lt NInf _ = True"
| "fval_lt PInf _ = False"
| "fval_lt (Fin a) PInf = True"
| "fval_lt (Fin a) NInf = False"

text \<open>\<^verbatim>\<open>a >= b\<close> on two floats.\<close>

definition float_ge :: "float64 \<Rightarrow> float64 \<Rightarrow> bool" where
  "float_ge a b = fval_le (valof b) (valof a)"

text \<open>\<^verbatim>\<open>weight >= 0\<close>: the int 0 is compared as the float 0.0.\<close>

definition float_ge_zero :: "float64 \<Rightarrow> bool" where
  "float_ge_zero a = fval_le (Fin 0) (valof a)"

text \<open>\<^verbatim>\<open>np.isfinite\<close>: neither an infinity nor a NaN.\<close>

definition isfinite :: "float64 \<Rightarrow> bool" where
  "isfinite a = (case valof a of Fin _ \<Rightarrow> True | _ \<Rightarrow> False)"

text \<open>
  Subtraction. On two numbers the exact difference is rounded to a binary64 by \<open>rnd\<close>
  (round to nearest in CPython); the other cases are those of IEEE-754.
\<close>

fun fsub :: "(real \<Rightarrow> fval) \<Rightarrow> fval \<Rightarrow> fval \<Rightarrow> fval" where
  "fsub rnd NaN _ = NaN"
| "fsub rnd _ NaN = NaN"
| "fsub rnd (Fin a) (Fin b) = rnd (a - b)"
| "fsub rnd PInf PInf = NaN"
| "fsub rnd NInf NInf = NaN"
| "fsub rnd PInf _ = PInf"
| "fsub rnd NInf _ = NInf"
| "fsub rnd (Fin a) PInf = NInf"
| "fsub rnd (Fin a) NInf = PInf"

text \<open>
  What the theorems need of the rounding: it keeps the order. Rounding to nearest
  does, overflow to an infinity included, and so does the exact \<open>Fin\<close>. A rounding
  that keeps the order never yields a NaN, which no number is less or equal to.
\<close>

definition monotone_rounding :: "(real \<Rightarrow> fval) \<Rightarrow> bool" where
  "monotone_rounding rnd = (\<forall>a b. a \<le> b \<longrightarrow> fval_le (rnd a) (rnd b))"

text \<open>
  The builtin \<^verbatim>\<open>max(a, b)\<close> of two arguments: it keeps \<open>a\<close> unless \<^verbatim>\<open>b > a\<close>.
\<close>

definition pymax :: "fval \<Rightarrow> fval \<Rightarrow> fval" where
  "pymax a b = (if fval_lt a b then b else a)"

subsection \<open>struct.pack and the shared tensor\<close>

datatype error =
  AssertionError | InvalidStateError | RecursionError | IndexError | StructError | ValueError

text \<open>
  \<^verbatim>\<open>struct.pack("d", x)\<close> in native byte order, little-endian on the platforms torch
  runs on: byte \<open>i\<close> holds bits \<open>8 i\<close> to \<open>8 i + 7\<close> of the pattern.
\<close>

definition pack_d :: "float64 \<Rightarrow> byte list" where
  "pack_d x = map (\<lambda>i. ucast (drop_bit (8 * i) x)) [0..<8]"

definition unpack_d :: "byte list \<Rightarrow> float64" where
  "unpack_d bs = word_rcat (rev bs)"

text \<open>
  \<^verbatim>\<open>struct.unpack("d", buf[a:b].numpy().data)[0]\<close>: the slice is clipped to the tensor, and
  unpack raises \<^verbatim>\<open>struct.error\<close> unless it gets exactly 8 bytes.
\<close>

definition slice :: "byte list \<Rightarrow> nat \<Rightarrow> nat \<Rightarrow> byte list" where
  "slice buf a b = take (b - a) (drop a buf)"

definition unpack_from_slice :: "byte list \<Rightarrow> nat \<Rightarrow> nat \<Rightarrow> error + float64" where
  "unpack_from_slice buf a b =
     (if length (slice buf a b) = 8 then Inr (unpack_d (slice buf a b)) else Inl StructError)"

text \<open>
  \<^verbatim>\<open>struct.pack_into("d", buf[a:b].numpy().data, 0, x)\<close>: the slice is a view of the
  tensor, so the 8 bytes land at offset \<open>a\<close> of the tensor; pack_into raises
  \<^verbatim>\<open>struct.error\<close> when the view has fewer than 8 bytes.
\<close>

definition pack_into_slice :: "byte list \<Rightarrow> nat \<Rightarrow> nat \<Rightarrow> float64 \<Rightarrow> error + byte list" where
  "pack_into_slice buf a b x =
     (if length (slice buf a b) < 8 then Inl StructError
      else Inr (take a buf @ pack_d x @ drop (a + 8) buf))"

text \<open>\<^verbatim>\<open>buf[i].item()\<close> and \<^verbatim>\<open>buf[i] = v\<close> raise IndexError out of range.\<close>

definition tensor_item :: "byte list \<Rightarrow> nat \<Rightarrow> error + byte" where
  "tensor_item buf i = (if i < length buf then Inr (buf ! i) else Inl IndexError)"

definition tensor_setitem :: "byte list \<Rightarrow> nat \<Rightarrow> byte \<Rightarrow> error + byte list" where
  "tensor_setitem buf i v = (if i < length buf then Inr (buf[i := v]) else Inl IndexError)"

subsection \<open>The world: shared tensors, futures and the log\<close>

text \<open>
  Modelled from the spec: the generic cross-process future \<^verbatim>\<open>MPFuture\<close> of
  \<^verbatim>\<open>hivemind.utils\<close>, which is not among the sources. It is a one-shot future with at
  most one resolution, offering \<^verbatim>\<open>set_result\<close>, \<^verbatim>\<open>cancel\<close> and \<^verbatim>\<open>done\<close>; a future
  pickled into another process keeps its identity. A future is therefore a uid, and its
  state lives in the world. As for the Python futures it extends, \<^verbatim>\<open>set_result\<close> on a
  future that is already resolved raises \<^verbatim>\<open>InvalidStateError\<close>, and \<^verbatim>\<open>cancel\<close> returns
  whether the future is cancelled afterwards.
\<close>

datatype future_state = Pending | Finished | Cancelled

record world =
  buffers :: "nat \<Rightarrow> byte list"
  futures :: "nat \<Rightarrow> future_state"
  warnings :: "string list"
  next_buffer :: nat
  next_future :: nat

type_synonym 'a result = "(error + 'a) \<times> world"

definition MPFuture_init :: "world \<Rightarrow> nat \<times> world" where
  "MPFuture_init w =
     (next_future w,
      w\<lparr>futures := (futures w)(next_future w := Pending), next_future := Suc (next_future w)\<rparr>)"

definition MPFuture_done :: "nat \<Rightarrow> world \<Rightarrow> bool" where
  "MPFuture_done u w = (futures w u \<noteq> Pending)"

definition MPFuture_set_result :: "nat \<Rightarrow> world \<Rightarrow> unit result" where
  "MPFuture_set_result u w =
     (if futures w u = Pending then (Inr (), w\<lparr>futures := (futures w)(u := Finished)\<rparr>)
      else (Inl InvalidStateError, w))"

definition MPFuture_cancel :: "nat \<Rightarrow> world \<Rightarrow> bool \<times> world" where
  "MPFuture_cancel u w =
     (case futures w u of
        Pending \<Rightarrow> (True, w\<lparr>futures := (futures w)(u := Cancelled)\<rparr>)
      | Cancelled \<Rightarrow> (True, w)
      | Finished \<Rightarrow> (False, w))"

text \<open>\<^verbatim>\<open>logger.warning(msg)\<close> appends to the log.\<close>

definition logger_warning :: "string \<Rightarrow> world \<Rightarrow> world" where
  "logger_warning msg w = w\<lparr>warnings := warnings w @ [msg]\<rparr>"

text \<open>\<^verbatim>\<open>torch.zeros([18], dtype=torch.uint8).share_memory_()\<close>: a fresh shared tensor.\<close>

definition torch_zeros_shared :: "nat \<Rightarrow> world \<Rightarrow> nat \<times> world" where
  "torch_zeros_shared n w =
     (next_buffer w,
      w\<lparr>buffers := (buffers w)(next_buffer w := replicate n 0), next_buffer := Suc (next_buffer w)\<rparr>)"

subsection \<open>AveragingStage\<close>

datatype AveragingStage =
  IDLE | LOOKING_FOR_GROUP | AWAITING_TRIGGER | RUNNING_ALLREDUCE | FINISHED

fun stage_value :: "AveragingStage \<Rightarrow> byte" where
  "stage_value IDLE = 0"
| "stage_value LOOKING_FOR_GROUP = 1"
| "stage_value AWAITING_TRIGGER = 2"
| "stage_value RUNNING_ALLREDUCE = 3"
| "stage_value FINISHED = 4"

text \<open>\<^verbatim>\<open>AveragingStage(v)\<close>: the member with value \<open>v\<close>, ValueError when there is none.\<close>

definition AveragingStage_of :: "byte \<Rightarrow> error + AveragingStage" where
  "AveragingStage_of v =
     (if v = 0 then Inr IDLE
      else if v = 1 then Inr LOOKING_FOR_GROUP
      else if v = 2 then Inr AWAITING_TRIGGER
      else if v = 3 then Inr RUNNING_ALLREDUCE
      else if v = 4 then Inr FINISHED
      else Inl ValueError)"

subsection \<open>StepControl\<close>

text \<open>
  The attributes of a handle. \<open>future_uid\<close> is the \<^verbatim>\<open>MPFuture\<close> the class extends;
  \<open>attr_trigger\<close> and \<open>attr_shared_buffer\<close> are references into the world
  (\<^verbatim>\<open>_trigger\<close>, \<^verbatim>\<open>_shared_buffer\<close>); \<open>can_modify\<close> is \<open>None\<close> until the stage setter
  creates the attribute.
\<close>

record StepControl =
  future_uid :: nat
  attr_gather_binary :: "byte list"
  attr_deadline :: float64
  attr_allow_retries :: bool
  attr_trigger :: "nat option"
  attr_shared_buffer :: nat
  can_modify :: "bool option"

definition gather_binary :: "StepControl \<Rightarrow> byte list" where
  "gather_binary h = attr_gather_binary h"

definition deadline :: "StepControl \<Rightarrow> float64" where
  "deadline h = attr_deadline h"

definition allow_retries :: "StepControl \<Rightarrow> bool" where
  "allow_retries h = attr_allow_retries h"

text \<open>The tensor of a handle, and the world after the tensor is overwritten.\<close>

definition shared_buffer :: "StepControl \<Rightarrow> world \<Rightarrow> byte list" where
  "shared_buffer h w = buffers w (attr_shared_buffer h)"

definition store_buffer :: "StepControl \<Rightarrow> byte list \<Rightarrow> world \<Rightarrow> world" where
  "store_buffer h buf w = w\<lparr>buffers := (buffers w)(attr_shared_buffer h := buf)\<rparr>"

subsubsection \<open>The field getters\<close>

definition get_scheduled_time :: "StepControl \<Rightarrow> world \<Rightarrow> error + float64" where
  "get_scheduled_time h w = unpack_from_slice (shared_buffer h w) 0 8"

definition get_weight :: "StepControl \<Rightarrow> world \<Rightarrow> error + float64" where
  "get_weight h w = unpack_from_slice (shared_buffer h w) 8 16"

definition get_stage :: "StepControl \<Rightarrow> world \<Rightarrow> error + AveragingStage" where
  "get_stage h w =
     (case tensor_item (shared_buffer h w) 16 of
        Inl e \<Rightarrow> Inl e
      | Inr v \<Rightarrow> AveragingStage_of v)"

definition get_began_allreduce :: "StepControl \<Rightarrow> world \<Rightarrow> error + bool" where
  "get_began_allreduce h w =
     (case tensor_item (shared_buffer h w) 17 of
        Inl e \<Rightarrow> Inl e
      | Inr v \<Rightarrow> Inr (v \<noteq> 0))"

subsubsection \<open>The field setters\<close>

definition set_scheduled_time :: "float64 \<Rightarrow> StepControl \<Rightarrow> world \<Rightarrow> unit result" where
  "set_scheduled_time scheduled_time h w =
     (case get_began_allreduce h w of
        Inl e \<Rightarrow> (Inl e, w)
      | Inr began \<Rightarrow>
          let w1 = (if began
                    then logger_warning
                      ''Changing scheduled time has no effect after all-reduce has already started'' w
                    else w);
              w2 = (if float_ge scheduled_time (deadline h)
                    then logger_warning
                      ''Changing scheduled time to after deadline, averaging will likely fail due to timeout.'' w1
                    else w1)
          in case pack_into_slice (shared_buffer h w2) 0 8 scheduled_time of
               Inl e \<Rightarrow> (Inl e, w2)
             | Inr buf \<Rightarrow> (Inr (), store_buffer h buf w2))"

definition set_weight :: "float64 \<Rightarrow> StepControl \<Rightarrow> world \<Rightarrow> unit result" where
  "set_weight weight h w =
     (if \<not> (float_ge_zero weight \<and> isfinite weight) then (Inl AssertionError, w)
      else case get_began_allreduce h w of
        Inl e \<Rightarrow> (Inl e, w)
      | Inr began \<Rightarrow>
          let w1 = (if began
                    then logger_warning
                      ''Changing weights has no effect after all-reduce has already started'' w
                    else w)
          in case pack_into_slice (shared_buffer h w1) 8 16 weight of
               Inl e \<Rightarrow> (Inl e, w1)
             | Inr buf \<Rightarrow> (Inr (), store_buffer h buf w1))"

text \<open>
  The stage setter changes the handle too (it creates \<^verbatim>\<open>can_modify\<close>), so it returns
  the handle with the world. The attribute is set before the tensor is written.
\<close>

definition set_stage :: "AveragingStage \<Rightarrow> StepControl \<Rightarrow> world \<Rightarrow> (error + unit) \<times> StepControl \<times> world" where
  "set_stage stage h w =
     (let h1 = (if stage = RUNNING_ALLREDUCE then h\<lparr>can_modify := Some False\<rparr> else h)
      in case tensor_setitem (shared_buffer h1 w) 16 (stage_value stage) of
           Inl e \<Rightarrow> (Inl e, h1, w)
         | Inr buf \<Rightarrow> (Inr (), h1, store_buffer h1 buf w))"

definition set_began_allreduce :: "bool \<Rightarrow> StepControl \<Rightarrow> world \<Rightarrow> unit result" where
  "set_began_allreduce v h w =
     (case tensor_setitem (shared_buffer h w) 17 (if v then 1 else 0) of
        Inl e \<Rightarrow> (Inl e, w)
      | Inr buf \<Rightarrow> (Inr (), store_buffer h buf w))"

subsubsection \<open>Construction\<close>

text \<open>
  \<^verbatim>\<open>__init__\<close>: the base future, the attributes, the zeroed tensor, then the four
  setters in the order of the source. An exception of a setter leaves the constructor.
\<close>

definition StepControl_init ::
  "float64 \<Rightarrow> float64 \<Rightarrow> bool \<Rightarrow> float64 \<Rightarrow> byte list \<Rightarrow> world \<Rightarrow> StepControl result" where
  "StepControl_init scheduled_time deadline' allow_retries' weight gather_binary' w =
     (let (uid, w1) = MPFuture_init w;
          (addr, w2) = torch_zeros_shared 18 w1;
          h = \<lparr>future_uid = uid, attr_gather_binary = gather_binary', attr_deadline = deadline',
               attr_allow_retries = allow_retries', attr_trigger = None,
               attr_shared_buffer = addr, can_modify = None\<rparr>
      in case set_stage IDLE h w2 of
           (Inl e, h1, w3) \<Rightarrow> (Inl e, w3)
         | (Inr _, h1, w3) \<Rightarrow>
        (case set_scheduled_time scheduled_time h1 w3 of
           (Inl e, w4) \<Rightarrow> (Inl e, w4)
         | (Inr _, w4) \<Rightarrow>
        (case set_weight weight h1 w4 of
           (Inl e, w5) \<Rightarrow> (Inl e, w5)
         | (Inr _, w5) \<Rightarrow>
        (case set_began_allreduce False h1 w5 of
           (Inl e, w6) \<Rightarrow> (Inl e, w6)
         | (Inr _, w6) \<Rightarrow> (Inr h1, w6)))))"

subsubsection \<open>The trigger\<close>

definition attach_trigger :: "nat \<Rightarrow> StepControl \<Rightarrow> error + StepControl" where
  "attach_trigger trigger h =
     (if attr_trigger h \<noteq> None then Inl AssertionError
      else Inr (h\<lparr>attr_trigger := Some trigger\<rparr>))"

text \<open>
  \<^verbatim>\<open>allow_allreduce\<close>: the warning is logged when the trigger is done, and
  \<^verbatim>\<open>set_result\<close> is called in either case (the \<^verbatim>\<open>if\<close> has no \<^verbatim>\<open>else\<close>).
\<close>

definition allow_allreduce :: "StepControl \<Rightarrow> world \<Rightarrow> unit result" where
  "allow_allreduce h w =
     (case attr_trigger h of
        None \<Rightarrow> (Inl AssertionError, w)
      | Some t \<Rightarrow>
          let w1 = (if MPFuture_done t w then logger_warning ''Trigger is already set'' w else w)
          in MPFuture_set_result t w1)"

subsubsection \<open>The timeout\<close>

text \<open>
  \<^verbatim>\<open>max(0.0, self.deadline - get_dht_time())\<close>. The clock is not among the sources: its
  reading is the argument \<open>now\<close>. \<open>rnd\<close> is the rounding of the subtraction.
\<close>

definition get_timeout :: "(real \<Rightarrow> fval) \<Rightarrow> float64 \<Rightarrow> StepControl \<Rightarrow> fval" where
  "get_timeout rnd now h = pymax (Fin 0) (fsub rnd (valof (deadline h)) (valof now))"

subsubsection \<open>Pickling\<close>

text \<open>
  The dict of \<^verbatim>\<open>__getstate__\<close>. \<open>base_state\<close> stands for the entries of
  \<^verbatim>\<open>super().__getstate__()\<close>: the identity of the future. The tensor and the trigger
  travel as references to shared memory, so the dict holds their addresses.
\<close>

record pickled_state =
  base_state :: nat
  state_trigger :: "nat option"
  state_shared_buffer :: nat
  immutable_params :: "byte list \<times> float64 \<times> bool"

definition getstate :: "StepControl \<Rightarrow> pickled_state" where
  "getstate h =
     \<lparr>base_state = future_uid h, state_trigger = attr_trigger h,
      state_shared_buffer = attr_shared_buffer h,
      immutable_params = (attr_gather_binary h, attr_deadline h, attr_allow_retries h)\<rparr>"

text \<open>
  \<^verbatim>\<open>__setstate__\<close> assigns the attributes of \<open>self\<close> from the dict; \<^verbatim>\<open>can_modify\<close> is
  not in the dict and stays what it is on \<open>self\<close>.
\<close>

definition setstate :: "pickled_state \<Rightarrow> StepControl \<Rightarrow> StepControl" where
  "setstate state self =
     (case immutable_params state of
        (g, d, r) \<Rightarrow>
          self\<lparr>future_uid := base_state state,
               attr_trigger := state_trigger state,
               attr_shared_buffer := state_shared_buffer state,
               attr_gather_binary := g, attr_deadline := d, attr_allow_retries := r\<rparr>)"

subsubsection \<open>Cancellation\<close>

text \<open>
  \<^verbatim>\<open>cancel\<close> cancels the trigger and then calls \<^verbatim>\<open>self.cancel()\<close>, itself, not the
  base class. The first argument is the number of frames left before the interpreter's
  recursion limit, where Python raises RecursionError.
\<close>

fun cancel :: "nat \<Rightarrow> StepControl \<Rightarrow> world \<Rightarrow> bool result" where
  "cancel 0 h w = (Inl RecursionError, w)"
| "cancel (Suc frames) h w =
     (let w1 = (case attr_trigger h of
                  Some t \<Rightarrow> snd (MPFuture_cancel t w)
                | None \<Rightarrow> w)
      in cancel frames h w1)"

subsubsection \<open>Calls of the interface\<close>

text \<open>
  One call of a handle's interface that can change state, and a sequence of such
  calls by one holder of the handle; an exception of a call is caught by the caller
  and the sequence goes on.
\<close>

datatype call =
  Set_scheduled_time float64
| Set_weight float64
| Set_stage AveragingStage
| Set_began_allreduce bool
| Attach_trigger nat
| Allow_allreduce
| Cancel nat

fun do_call :: "call \<Rightarrow> StepControl \<times> world \<Rightarrow> StepControl \<times> world" where
  "do_call (Set_scheduled_time x) (h, w) = (h, snd (set_scheduled_time x h w))"
| "do_call (Set_weight x) (h, w) = (h, snd (set_weight x h w))"
| "do_call (Set_stage s) (h, w) = snd (set_stage s h w)"
| "do_call (Set_began_allreduce v) (h, w) = (h, snd (set_began_allreduce v h w))"
| "do_call (Attach_trigger t) (h, w) =
     (case attach_trigger t h of Inl e \<Rightarrow> (h, w) | Inr h1 \<Rightarrow> (h1, w))"
| "do_call Allow_allreduce (h, w) = (h, snd (allow_allreduce h w))"
| "do_call (Cancel frames) (h, w) = (h, snd (cancel frames h w))"

fun do_calls :: "call list \<Rightarrow> StepControl \<times> world \<Rightarrow> StepControl \<times> world" where
  "do_calls [] s = s"
| "do_calls (c # cs) s = do_calls cs (do_call c s)"

subsection \<open>A handle and a world for the examples\<close>

text \<open>
  A handle with deadline 10.0 and no trigger, whose tensor (at address 0) holds 18
  zero bytes: scheduled time 0.0, weight 0.0, stage IDLE, all-reduce not begun.
\<close>

definition example_handle :: StepControl where
  "example_handle =
     \<lparr>future_uid = 0, attr_gather_binary = [], attr_deadline = 0x4024000000000000,
      attr_allow_retries = True, attr_trigger = None, attr_shared_buffer = 0,
      can_modify = None\<rparr>"

definition example_world :: world where
  "example_world =
     \<lparr>buffers = (\<lambda>_. replicate 18 0), futures = (\<lambda>_. Pending), warnings = [],
      next_buffer = 1, next_future = 1\<rparr>"

section \<open>Properties\<close>

subsection \<open>The codec\<close>

lemma length_pack_d: "length (pack_d x) = 8"
  by (simp add: pack_d_def)

lemma bit_horner_bytes:
  "bit (horner_sum uint 256 (ws :: byte list)) n =
     (n div 8 < length ws \<and> bit (ws ! (n div 8)) (n mod 8))"
  using bit_horner_sum_uint_exp_iff [where ?'a = 8, of ws n] by simp

lemma unpack_pack_d: "unpack_d (pack_d x) = x"
  unfolding pack_d_def unpack_d_def word_rcat_def
  apply (rule bit_word_eqI)
  apply (simp add: bit_word_of_int_iff bit_horner_bytes bit_ucast_iff bit_drop_bit_eq del: upt_Suc)
  apply (auto simp: less_Suc_eq_le simp del: upt_Suc)
  done

lemma shared_buffer_logger_warning: "shared_buffer h (logger_warning m w) = shared_buffer h w"
  by (simp add: shared_buffer_def logger_warning_def)

lemma shared_buffer_store_buffer: "shared_buffer h (store_buffer h buf w) = buf"
  by (simp add: shared_buffer_def store_buffer_def)

lemma began_logger_warning: "get_began_allreduce h (logger_warning m w) = get_began_allreduce h w"
  by (simp add: get_began_allreduce_def shared_buffer_logger_warning)

subsection \<open>What the setters do to the tensor\<close>

lemma set_scheduled_time_buffer:
  assumes "length (shared_buffer h w) = 18"
  shows "fst (set_scheduled_time x h w) = Inr ()"
    and "shared_buffer h (snd (set_scheduled_time x h w)) = pack_d x @ drop 8 (shared_buffer h w)"
  using assms
  by (simp_all add: set_scheduled_time_def get_began_allreduce_def tensor_item_def Let_def
      pack_into_slice_def slice_def shared_buffer_logger_warning shared_buffer_store_buffer)

lemma set_weight_buffer:
  assumes "length (shared_buffer h w) = 18" "float_ge_zero x" "isfinite x"
  shows "fst (set_weight x h w) = Inr ()"
    and "shared_buffer h (snd (set_weight x h w)) =
           take 8 (shared_buffer h w) @ pack_d x @ drop 16 (shared_buffer h w)"
  using assms
  by (simp_all add: set_weight_def get_began_allreduce_def tensor_item_def Let_def
      pack_into_slice_def slice_def shared_buffer_logger_warning shared_buffer_store_buffer)

lemma set_weight_invalid:
  assumes "\<not> (float_ge_zero x \<and> isfinite x)"
  shows "set_weight x h w = (Inl AssertionError, w)"
  using assms by (simp add: set_weight_def)

lemma set_stage_buffer:
  assumes "length (shared_buffer h w) = 18"
  shows "fst (set_stage s h w) = Inr ()"
    and "attr_shared_buffer (fst (snd (set_stage s h w))) = attr_shared_buffer h"
    and "shared_buffer h (snd (snd (set_stage s h w))) = (shared_buffer h w)[16 := stage_value s]"
  using assms
  by (simp_all add: set_stage_def tensor_setitem_def Let_def shared_buffer_def store_buffer_def)

lemma set_began_allreduce_buffer:
  assumes "length (shared_buffer h w) = 18"
  shows "fst (set_began_allreduce v h w) = Inr ()"
    and "shared_buffer h (snd (set_began_allreduce v h w)) =
           (shared_buffer h w)[17 := (if v then 1 else 0)]"
  using assms
  by (simp_all add: set_began_allreduce_def tensor_setitem_def shared_buffer_store_buffer)

subsection \<open>What the getters read after a write\<close>

lemma slice_0_8_pack: "slice (pack_d x @ ys) 0 8 = pack_d x"
  by (simp add: slice_def length_pack_d)

lemma slice_8_16_pack_front: "slice (pack_d x @ drop 8 buf) 8 16 = slice buf 8 16"
  by (simp add: slice_def length_pack_d)

lemma slice_8_16_pack: "8 \<le> length buf \<Longrightarrow> slice (take 8 buf @ pack_d x @ ys) 8 16 = pack_d x"
  by (simp add: slice_def length_pack_d)

lemma slice_0_8_pack_back: "8 \<le> length buf \<Longrightarrow> slice (take 8 buf @ ys) 0 8 = slice buf 0 8"
  by (simp add: slice_def)

lemma slice_update_high: "16 \<le> i \<Longrightarrow> a \<le> b \<Longrightarrow> b \<le> 16 \<Longrightarrow> slice (buf[i := v]) a b = slice buf a b"
  by (simp add: slice_def drop_update_swap take_update_cancel)

lemma item_pack_front: "8 \<le> i \<Longrightarrow> tensor_item (pack_d x @ drop 8 buf) i = tensor_item buf i"
  by (auto simp: tensor_item_def nth_append length_pack_d)

lemma item_pack_mid:
  "16 \<le> i \<Longrightarrow> 16 \<le> length buf \<Longrightarrow>
   tensor_item (take 8 buf @ pack_d x @ drop 16 buf) i = tensor_item buf i"
  by (auto simp: tensor_item_def nth_append length_pack_d)

lemma item_update: "tensor_item (buf[i := v]) j = (if i = j \<and> j < length buf then Inr v else tensor_item buf j)"
  by (auto simp: tensor_item_def)

lemma example_length: "length (shared_buffer example_handle example_world) = 18"
  by (simp add: shared_buffer_def example_world_def)

lemma valof_one: "valof 0x3FF0000000000000 = Fin 1"
  by (simp add: valof_def float_sign_def float_exponent_def float_fraction_def)
lemma valof_ten: "valof 0x4024000000000000 = Fin 10"
  by (simp add: valof_def float_sign_def float_exponent_def float_fraction_def)
lemma valof_zero: "valof 0 = Fin 0"
  by (simp add: valof_def float_sign_def float_exponent_def float_fraction_def)
lemma valof_minus_one: "valof 0xBFF0000000000000 = Fin (- 1)"
  by (simp add: valof_def float_sign_def float_exponent_def float_fraction_def)

lemma AveragingStage_of_value: "AveragingStage_of (stage_value s) = Inr s"
  by (cases s) (simp_all add: AveragingStage_of_def)

lemma valid_weight_iff:
  "(float_ge_zero x \<and> isfinite x) = (\<exists>r. valof x = Fin r \<and> 0 \<le> r)"
  by (cases "valof x") (simp_all add: float_ge_zero_def isfinite_def)

lemma after_set_scheduled_time:
  assumes "length (shared_buffer h w) = 18"
  shows "get_scheduled_time h (snd (set_scheduled_time x h w)) = Inr x"
    and "get_weight h (snd (set_scheduled_time x h w)) = get_weight h w"
    and "get_stage h (snd (set_scheduled_time x h w)) = get_stage h w"
    and "get_began_allreduce h (snd (set_scheduled_time x h w)) = get_began_allreduce h w"
  using assms
  by (simp_all add: get_scheduled_time_def get_weight_def get_stage_def get_began_allreduce_def
      set_scheduled_time_buffer unpack_from_slice_def slice_0_8_pack slice_8_16_pack_front
      item_pack_front length_pack_d unpack_pack_d)

lemma after_set_weight:
  assumes "length (shared_buffer h w) = 18" "float_ge_zero x" "isfinite x"
  shows "get_weight h (snd (set_weight x h w)) = Inr x"
    and "get_scheduled_time h (snd (set_weight x h w)) = get_scheduled_time h w"
    and "get_stage h (snd (set_weight x h w)) = get_stage h w"
    and "get_began_allreduce h (snd (set_weight x h w)) = get_began_allreduce h w"
  using assms
  by (simp_all add: get_scheduled_time_def get_weight_def get_stage_def get_began_allreduce_def
      set_weight_buffer unpack_from_slice_def slice_8_16_pack slice_0_8_pack_back
      item_pack_mid length_pack_d unpack_pack_d)

lemma shared_buffer_cong: "attr_shared_buffer h' = attr_shared_buffer h \<Longrightarrow> shared_buffer h' w = shared_buffer h w"
  by (simp add: shared_buffer_def)

lemma after_set_stage:
  assumes "length (shared_buffer h w) = 18"
  shows "get_stage (fst (snd (set_stage s h w))) (snd (snd (set_stage s h w))) = Inr s"
    and "get_scheduled_time (fst (snd (set_stage s h w))) (snd (snd (set_stage s h w))) = get_scheduled_time h w"
    and "get_weight (fst (snd (set_stage s h w))) (snd (snd (set_stage s h w))) = get_weight h w"
    and "get_began_allreduce (fst (snd (set_stage s h w))) (snd (snd (set_stage s h w))) = get_began_allreduce h w"
  using assms
  by (simp_all add: get_scheduled_time_def get_weight_def get_stage_def get_began_allreduce_def
      shared_buffer_cong [OF set_stage_buffer(2)] set_stage_buffer(3)
      unpack_from_slice_def slice_update_high item_update AveragingStage_of_value)

lemma after_set_began_allreduce:
  assumes "length (shared_buffer h w) = 18"
  shows "get_began_allreduce h (snd (set_began_allreduce v h w)) = Inr v"
    and "get_scheduled_time h (snd (set_began_allreduce v h w)) = get_scheduled_time h w"
    and "get_weight h (snd (set_began_allreduce v h w)) = get_weight h w"
    and "get_stage h (snd (set_began_allreduce v h w)) = get_stage h w"
  using assms
  by (simp_all add: get_scheduled_time_def get_weight_def get_stage_def get_began_allreduce_def
      set_began_allreduce_buffer unpack_from_slice_def slice_update_high item_update)

subsection \<open>The layout of the shared block\<close>

text \<open>
  C7. On a handle whose tensor has its 18 bytes: each setter succeeds and writes its own
  bytes only (scheduled time bytes 0 to 7, weight bytes 8 to 15, stage byte 16,
  began-allreduce byte 17); the getter of the field then returns the value written, and
  the getters of the other three fields return what they returned before. For the
  weight this is said of the weights its setter accepts.
\<close>

theorem shared_block_layout:
  assumes "length (shared_buffer h w) = 18"
  shows
    "(fst (set_scheduled_time t h w) = Inr () \<and>
      shared_buffer h (snd (set_scheduled_time t h w)) = pack_d t @ drop 8 (shared_buffer h w) \<and>
      get_scheduled_time h (snd (set_scheduled_time t h w)) = Inr t \<and>
      get_weight h (snd (set_scheduled_time t h w)) = get_weight h w \<and>
      get_stage h (snd (set_scheduled_time t h w)) = get_stage h w \<and>
      get_began_allreduce h (snd (set_scheduled_time t h w)) = get_began_allreduce h w) \<and>
     (float_ge_zero x \<and> isfinite x \<longrightarrow>
      fst (set_weight x h w) = Inr () \<and>
      shared_buffer h (snd (set_weight x h w)) =
        take 8 (shared_buffer h w) @ pack_d x @ drop 16 (shared_buffer h w) \<and>
      get_weight h (snd (set_weight x h w)) = Inr x \<and>
      get_scheduled_time h (snd (set_weight x h w)) = get_scheduled_time h w \<and>
      get_stage h (snd (set_weight x h w)) = get_stage h w \<and>
      get_began_allreduce h (snd (set_weight x h w)) = get_began_allreduce h w) \<and>
     (fst (set_stage s h w) = Inr () \<and>
      shared_buffer h (snd (snd (set_stage s h w))) = (shared_buffer h w)[16 := stage_value s] \<and>
      get_stage (fst (snd (set_stage s h w))) (snd (snd (set_stage s h w))) = Inr s \<and>
      get_scheduled_time (fst (snd (set_stage s h w))) (snd (snd (set_stage s h w))) =
        get_scheduled_time h w \<and>
      get_weight (fst (snd (set_stage s h w))) (snd (snd (set_stage s h w))) = get_weight h w \<and>
      get_began_allreduce (fst (snd (set_stage s h w))) (snd (snd (set_stage s h w))) =
        get_began_allreduce h w) \<and>
     (fst (set_began_allreduce b h w) = Inr () \<and>
      shared_buffer h (snd (set_began_allreduce b h w)) =
        (shared_buffer h w)[17 := (if b then 1 else 0)] \<and>
      get_began_allreduce h (snd (set_began_allreduce b h w)) = Inr b \<and>
      get_scheduled_time h (snd (set_began_allreduce b h w)) = get_scheduled_time h w \<and>
      get_weight h (snd (set_began_allreduce b h w)) = get_weight h w \<and>
      get_stage h (snd (set_began_allreduce b h w)) = get_stage h w)"
proof -
  note len = assms
  have time: "fst (set_scheduled_time t h w) = Inr () \<and>
      shared_buffer h (snd (set_scheduled_time t h w)) = pack_d t @ drop 8 (shared_buffer h w) \<and>
      get_scheduled_time h (snd (set_scheduled_time t h w)) = Inr t \<and>
      get_weight h (snd (set_scheduled_time t h w)) = get_weight h w \<and>
      get_stage h (snd (set_scheduled_time t h w)) = get_stage h w \<and>
      get_began_allreduce h (snd (set_scheduled_time t h w)) = get_began_allreduce h w"
    by (simp add: set_scheduled_time_buffer [OF len] after_set_scheduled_time [OF len])
  have weight: "fst (set_weight x h w) = Inr () \<and>
      shared_buffer h (snd (set_weight x h w)) =
        take 8 (shared_buffer h w) @ pack_d x @ drop 16 (shared_buffer h w) \<and>
      get_weight h (snd (set_weight x h w)) = Inr x \<and>
      get_scheduled_time h (snd (set_weight x h w)) = get_scheduled_time h w \<and>
      get_stage h (snd (set_weight x h w)) = get_stage h w \<and>
      get_began_allreduce h (snd (set_weight x h w)) = get_began_allreduce h w"
    if "float_ge_zero x" "isfinite x"
    by (simp add: set_weight_buffer [OF len that] after_set_weight [OF len that])
  have stage: "fst (set_stage s h w) = Inr () \<and>
      shared_buffer h (snd (snd (set_stage s h w))) = (shared_buffer h w)[16 := stage_value s] \<and>
      get_stage (fst (snd (set_stage s h w))) (snd (snd (set_stage s h w))) = Inr s \<and>
      get_scheduled_time (fst (snd (set_stage s h w))) (snd (snd (set_stage s h w))) =
        get_scheduled_time h w \<and>
      get_weight (fst (snd (set_stage s h w))) (snd (snd (set_stage s h w))) = get_weight h w \<and>
      get_began_allreduce (fst (snd (set_stage s h w))) (snd (snd (set_stage s h w))) =
        get_began_allreduce h w"
    by (simp add: set_stage_buffer [OF len] after_set_stage [OF len])
  have began: "fst (set_began_allreduce b h w) = Inr () \<and>
      shared_buffer h (snd (set_began_allreduce b h w)) =
        (shared_buffer h w)[17 := (if b then 1 else 0)] \<and>
      get_began_allreduce h (snd (set_began_allreduce b h w)) = Inr b \<and>
      get_scheduled_time h (snd (set_began_allreduce b h w)) = get_scheduled_time h w \<and>
      get_weight h (snd (set_began_allreduce b h w)) = get_weight h w \<and>
      get_stage h (snd (set_began_allreduce b h w)) = get_stage h w"
    by (simp add: set_began_allreduce_buffer [OF len] after_set_began_allreduce [OF len])
  from time weight stage began show ?thesis by blast
qed

theorem shared_block_layout_witness:
  "length (shared_buffer example_handle example_world) = 18 \<and>
   float_ge_zero 0x3FF0000000000000 \<and> isfinite 0x3FF0000000000000 \<and>
   get_scheduled_time example_handle
     (snd (set_scheduled_time 0x4024000000000000 example_handle example_world)) =
     Inr 0x4024000000000000 \<and>
   get_weight example_handle (snd (set_weight 0x3FF0000000000000 example_handle example_world)) =
     Inr 0x3FF0000000000000 \<and>
   get_stage (fst (snd (set_stage FINISHED example_handle example_world)))
     (snd (snd (set_stage FINISHED example_handle example_world))) = Inr FINISHED \<and>
   get_began_allreduce example_handle
     (snd (set_began_allreduce True example_handle example_world)) = Inr True \<and>
   get_weight example_handle
     (snd (set_scheduled_time 0x4024000000000000 example_handle example_world)) =
     get_weight example_handle example_world"
proof -
  have valid: "float_ge_zero 0x3FF0000000000000 \<and> isfinite 0x3FF0000000000000"
    by (simp add: float_ge_zero_def isfinite_def valof_one)
  show ?thesis
    using shared_block_layout [OF example_length, of "0x4024000000000000" "0x3FF0000000000000"
        FINISHED True] example_length valid
    by simp
qed

subsection \<open>The setters and the flag of the stage setter\<close>

lemma valof_inf: "valof 0x7FF0000000000000 = PInf"
  by (simp add: valof_def float_sign_def float_exponent_def float_fraction_def)

lemma can_modify_irrelevant:
  "shared_buffer (h\<lparr>can_modify := c\<rparr>) = shared_buffer h"
  "store_buffer (h\<lparr>can_modify := c\<rparr>) = store_buffer h"
  "deadline (h\<lparr>can_modify := c\<rparr>) = deadline h"
  "get_began_allreduce (h\<lparr>can_modify := c\<rparr>) = get_began_allreduce h"
  by (simp_all add: fun_eq_iff shared_buffer_def store_buffer_def deadline_def
      get_began_allreduce_def)

lemma set_scheduled_time_can_modify:
  "set_scheduled_time t (h\<lparr>can_modify := c\<rparr>) w = set_scheduled_time t h w"
  unfolding set_scheduled_time_def can_modify_irrelevant ..

lemma set_weight_can_modify:
  "set_weight x (h\<lparr>can_modify := c\<rparr>) w = set_weight x h w"
  unfolding set_weight_def can_modify_irrelevant ..

lemma set_scheduled_time_frame:
  "futures (snd (set_scheduled_time t h w)) = futures w"
  "\<exists>ws. warnings (snd (set_scheduled_time t h w)) = warnings w @ ws"
  "buffers (snd (set_scheduled_time t h w)) a = buffers w a \<or> a = attr_shared_buffer h"
  by (auto simp: set_scheduled_time_def Let_def logger_warning_def store_buffer_def
      split: sum.splits)

lemma set_weight_succeeds_iff:
  assumes "length (shared_buffer h w) = 18"
  shows "(fst (set_weight x h w) = Inr ()) = (float_ge_zero x \<and> isfinite x)"
proof (cases "float_ge_zero x \<and> isfinite x")
  case True
  then show ?thesis using set_weight_buffer(1) [OF assms, of x] by simp
next
  case False
  then show ?thesis using set_weight_invalid [OF False, of h w] by simp
qed

lemma set_stage_running_flag:
  "can_modify (fst (snd (set_stage RUNNING_ALLREDUCE h w))) = Some False"
  by (simp add: set_stage_def Let_def split: sum.split)

lemma set_stage_length:
  assumes "length (shared_buffer h w) = 18"
  shows "length (shared_buffer (fst (snd (set_stage s h w))) (snd (snd (set_stage s h w)))) = 18"
  using assms
  by (simp add: shared_buffer_cong [OF set_stage_buffer(2)] set_stage_buffer(3))

lemma unpack_d_zeros: "unpack_d (replicate 8 0) = 0"
proof -
  have "replicate 8 0 = pack_d 0"
    by (simp add: pack_d_def map_replicate_const del: upt_Suc)
  then show ?thesis by (simp add: unpack_pack_d)
qed

lemma example_scheduled_time: "get_scheduled_time example_handle example_world = Inr 0"
  by (simp add: get_scheduled_time_def unpack_from_slice_def slice_def shared_buffer_def
      example_world_def unpack_d_zeros)

text \<open>
  C10. On a handle whose tensor has its 18 bytes, whatever the bytes are (any stage, any
  began-allreduce byte) and whatever \<open>can_modify\<close> is, \<^verbatim>\<open>scheduled_time = t\<close>
  succeeds: the 8 bytes of \<open>t\<close> are stored at offset 0, the getter then returns \<open>t\<close>,
  the result does not depend on \<open>can_modify\<close>, no future changes, and the log only
  grows (by warnings).
\<close>

theorem scheduled_time_setter_never_rejects:
  assumes "length (shared_buffer h w) = 18"
  shows "fst (set_scheduled_time t h w) = Inr () \<and>
         shared_buffer h (snd (set_scheduled_time t h w)) = pack_d t @ drop 8 (shared_buffer h w) \<and>
         get_scheduled_time h (snd (set_scheduled_time t h w)) = Inr t \<and>
         set_scheduled_time t (h\<lparr>can_modify := c\<rparr>) w = set_scheduled_time t h w \<and>
         futures (snd (set_scheduled_time t h w)) = futures w \<and>
         (\<exists>ws. warnings (snd (set_scheduled_time t h w)) = warnings w @ ws)"
  using set_scheduled_time_buffer [OF assms, of t] after_set_scheduled_time(1) [OF assms, of t]
    set_scheduled_time_can_modify [where t = t and h = h and c = c and w = w] set_scheduled_time_frame(1,2) [of t h w]
  by simp

theorem scheduled_time_setter_never_rejects_witness:
  "length (shared_buffer example_handle example_world) = 18 \<and>
   fst (set_scheduled_time 0x4024000000000000 example_handle example_world) = Inr () \<and>
   get_scheduled_time example_handle
     (snd (set_scheduled_time 0x4024000000000000 example_handle example_world)) =
     Inr 0x4024000000000000"
  using scheduled_time_setter_never_rejects [OF example_length, of "0x4024000000000000"]
    example_length
  by simp

text \<open>
  C4. On a handle whose tensor has its 18 bytes, \<^verbatim>\<open>weight = x\<close> succeeds exactly when
  \<open>x\<close> is a number \<open>r\<close> with \<open>0 \<le> r\<close> (not an infinity, not a NaN); it then
  stores \<open>x\<close>. Otherwise it raises AssertionError and the world, the shared block
  included, is what it was.
\<close>

theorem weight_setter_validates:
  assumes "length (shared_buffer h w) = 18"
  shows "(fst (set_weight x h w) = Inr ()) = (\<exists>r. valof x = Fin r \<and> 0 \<le> r) \<and>
         ((\<exists>r. valof x = Fin r \<and> 0 \<le> r) \<longrightarrow> get_weight h (snd (set_weight x h w)) = Inr x) \<and>
         (\<not> (\<exists>r. valof x = Fin r \<and> 0 \<le> r) \<longrightarrow> set_weight x h w = (Inl AssertionError, w))"
proof (cases "\<exists>r. valof x = Fin r \<and> 0 \<le> r")
  case True
  then have v: "float_ge_zero x" "isfinite x"
    using valid_weight_iff [of x] by blast+
  show ?thesis
    using set_weight_buffer(1) [OF assms v] after_set_weight(1) [OF assms v] True by simp
next
  case False
  then have "\<not> (float_ge_zero x \<and> isfinite x)"
    by (simp add: valid_weight_iff)
  from set_weight_invalid [OF this, of h w] show ?thesis
    using False by auto
qed

theorem weight_setter_validates_witness:
  "length (shared_buffer example_handle example_world) = 18 \<and>
   valof 0x3FF0000000000000 = Fin 1 \<and>
   fst (set_weight 0x3FF0000000000000 example_handle example_world) = Inr () \<and>
   get_weight example_handle (snd (set_weight 0x3FF0000000000000 example_handle example_world)) =
     Inr 0x3FF0000000000000 \<and>
   valof 0xBFF0000000000000 = Fin (- 1) \<and>
   set_weight 0xBFF0000000000000 example_handle example_world =
     (Inl AssertionError, example_world) \<and>
   valof 0x7FF0000000000000 = PInf \<and>
   set_weight 0x7FF0000000000000 example_handle example_world =
     (Inl AssertionError, example_world)"
  using weight_setter_validates [OF example_length, of "0x3FF0000000000000"]
    weight_setter_validates [OF example_length, of "0xBFF0000000000000"]
    weight_setter_validates [OF example_length, of "0x7FF0000000000000"]
    example_length valof_one valof_minus_one valof_inf
  by simp

text \<open>
  C3, as amended. Setting the stage to \<^verbatim>\<open>RUNNING_ALLREDUCE\<close> sets \<open>can_modify\<close> to
  False on the handle and stores the stage. No setter reads the flag: on the handle so
  flagged \<^verbatim>\<open>scheduled_time = t\<close> still succeeds and stores \<open>t\<close>, and \<^verbatim>\<open>weight = x\<close>
  still succeeds, and stores \<open>x\<close>, exactly when \<open>x\<close> is a number that is not negative.
\<close>

theorem frozen_flag_not_consulted:
  assumes "length (shared_buffer h w) = 18"
  shows
    "can_modify (fst (snd (set_stage RUNNING_ALLREDUCE h w))) = Some False \<and>
     get_stage (fst (snd (set_stage RUNNING_ALLREDUCE h w)))
       (snd (snd (set_stage RUNNING_ALLREDUCE h w))) = Inr RUNNING_ALLREDUCE \<and>
     fst (set_scheduled_time t (fst (snd (set_stage RUNNING_ALLREDUCE h w)))
       (snd (snd (set_stage RUNNING_ALLREDUCE h w)))) = Inr () \<and>
     get_scheduled_time (fst (snd (set_stage RUNNING_ALLREDUCE h w)))
       (snd (set_scheduled_time t (fst (snd (set_stage RUNNING_ALLREDUCE h w)))
         (snd (snd (set_stage RUNNING_ALLREDUCE h w))))) = Inr t \<and>
     (fst (set_weight x (fst (snd (set_stage RUNNING_ALLREDUCE h w)))
       (snd (snd (set_stage RUNNING_ALLREDUCE h w)))) = Inr ()) =
       (\<exists>r. valof x = Fin r \<and> 0 \<le> r) \<and>
     ((\<exists>r. valof x = Fin r \<and> 0 \<le> r) \<longrightarrow>
      get_weight (fst (snd (set_stage RUNNING_ALLREDUCE h w)))
       (snd (set_weight x (fst (snd (set_stage RUNNING_ALLREDUCE h w)))
         (snd (snd (set_stage RUNNING_ALLREDUCE h w))))) = Inr x)"
proof -
  define h' where "h' = fst (snd (set_stage RUNNING_ALLREDUCE h w))"
  define w' where "w' = snd (snd (set_stage RUNNING_ALLREDUCE h w))"
  have len: "length (shared_buffer h' w') = 18"
    unfolding h'_def w'_def by (rule set_stage_length [OF assms])
  have flag: "can_modify h' = Some False"
    unfolding h'_def by (rule set_stage_running_flag)
  have stage: "get_stage h' w' = Inr RUNNING_ALLREDUCE"
    unfolding h'_def w'_def by (rule after_set_stage(1) [OF assms])
  have time: "fst (set_scheduled_time t h' w') = Inr ()"
    "get_scheduled_time h' (snd (set_scheduled_time t h' w')) = Inr t"
    by (rule set_scheduled_time_buffer(1) [OF len], rule after_set_scheduled_time(1) [OF len])
  have weight: "(fst (set_weight x h' w') = Inr ()) = (\<exists>r. valof x = Fin r \<and> 0 \<le> r)"
    by (simp add: set_weight_succeeds_iff [OF len] valid_weight_iff)
  have stored: "get_weight h' (snd (set_weight x h' w')) = Inr x"
    if "\<exists>r. valof x = Fin r \<and> 0 \<le> r"
  proof -
    from that have "float_ge_zero x" "isfinite x"
      using valid_weight_iff [of x] by blast+
    then show ?thesis by (rule after_set_weight(1) [OF len])
  qed
  from flag stage time weight stored show ?thesis
    unfolding h'_def w'_def by blast
qed

theorem frozen_flag_not_consulted_witness:
  "length (shared_buffer example_handle example_world) = 18 \<and>
   valof 0x3FF0000000000000 = Fin 1 \<and>
   can_modify (fst (snd (set_stage RUNNING_ALLREDUCE example_handle example_world))) =
     Some False \<and>
   fst (set_weight 0x3FF0000000000000
     (fst (snd (set_stage RUNNING_ALLREDUCE example_handle example_world)))
     (snd (snd (set_stage RUNNING_ALLREDUCE example_handle example_world)))) = Inr () \<and>
   get_weight (fst (snd (set_stage RUNNING_ALLREDUCE example_handle example_world)))
     (snd (set_weight 0x3FF0000000000000
       (fst (snd (set_stage RUNNING_ALLREDUCE example_handle example_world)))
       (snd (snd (set_stage RUNNING_ALLREDUCE example_handle example_world))))) =
     Inr 0x3FF0000000000000"
  using frozen_flag_not_consulted [OF example_length, of "0x3FF0000000000000"]
    example_length valof_one
  by simp

text \<open>
  C3 as stated fails: after the stage of the example handle is set to
  \<^verbatim>\<open>RUNNING_ALLREDUCE\<close> the flag is set, the scheduled time reads 0.0, and
  \<^verbatim>\<open>scheduled_time = 10.0\<close> is not rejected: it succeeds and the shared block then
  reads 10.0.
\<close>

theorem frozen_flag_counterexample:
  "can_modify (fst (snd (set_stage RUNNING_ALLREDUCE example_handle example_world))) =
     Some False \<and>
   get_scheduled_time (fst (snd (set_stage RUNNING_ALLREDUCE example_handle example_world)))
     (snd (snd (set_stage RUNNING_ALLREDUCE example_handle example_world))) = Inr 0 \<and>
   fst (set_scheduled_time 0x4024000000000000
     (fst (snd (set_stage RUNNING_ALLREDUCE example_handle example_world)))
     (snd (snd (set_stage RUNNING_ALLREDUCE example_handle example_world)))) = Inr () \<and>
   get_scheduled_time (fst (snd (set_stage RUNNING_ALLREDUCE example_handle example_world)))
     (snd (set_scheduled_time 0x4024000000000000
       (fst (snd (set_stage RUNNING_ALLREDUCE example_handle example_world)))
       (snd (snd (set_stage RUNNING_ALLREDUCE example_handle example_world))))) =
     Inr 0x4024000000000000"
proof -
  note len = set_stage_length [OF example_length, of RUNNING_ALLREDUCE]
  show ?thesis
    using set_stage_running_flag [of example_handle example_world]
      after_set_stage(2) [OF example_length, of RUNNING_ALLREDUCE] example_scheduled_time
      set_scheduled_time_buffer(1) [OF len, of "0x4024000000000000"]
      after_set_scheduled_time(1) [OF len, of "0x4024000000000000"]
    by simp
qed

subsection \<open>The began-allreduce flag\<close>

lemma allow_allreduce_buffers: "buffers (snd (allow_allreduce h w)) = buffers w"
  by (simp add: allow_allreduce_def MPFuture_set_result_def logger_warning_def Let_def
      split: option.split)

lemma MPFuture_cancel_buffers: "buffers (snd (MPFuture_cancel t w)) = buffers w"
  by (simp add: MPFuture_cancel_def split: future_state.split)

lemma cancel_buffers: "buffers (snd (cancel frames h w)) = buffers w"
  by (induction frames arbitrary: w)
    (simp_all add: Let_def MPFuture_cancel_buffers split: option.split)

lemma getters_buffers:
  assumes "buffers w' = buffers w" "attr_shared_buffer h' = attr_shared_buffer h"
  shows "shared_buffer h' w' = shared_buffer h w"
    and "get_began_allreduce h' w' = get_began_allreduce h w"
  using assms by (simp_all add: shared_buffer_def get_began_allreduce_def)

lemma set_scheduled_time_length:
  assumes "length (shared_buffer h w) = 18"
  shows "length (shared_buffer h (snd (set_scheduled_time t h w))) = 18"
  using assms by (simp add: set_scheduled_time_buffer(2) length_pack_d)

lemma set_weight_keeps:
  assumes "length (shared_buffer h w) = 18"
  shows "length (shared_buffer h (snd (set_weight x h w))) = 18"
    and "get_began_allreduce h (snd (set_weight x h w)) = get_began_allreduce h w"
proof -
  show "length (shared_buffer h (snd (set_weight x h w))) = 18"
  proof (cases "float_ge_zero x \<and> isfinite x")
    case True
    then show ?thesis using assms by (simp add: set_weight_buffer(2) length_pack_d)
  next
    case False
    then show ?thesis using assms by (simp add: set_weight_invalid)
  qed
  show "get_began_allreduce h (snd (set_weight x h w)) = get_began_allreduce h w"
  proof (cases "float_ge_zero x \<and> isfinite x")
    case True
    then show ?thesis using after_set_weight(4) [OF assms, of x] by simp
  next
    case False
    then show ?thesis by (simp add: set_weight_invalid)
  qed
qed

lemma set_began_allreduce_length:
  assumes "length (shared_buffer h w) = 18"
  shows "length (shared_buffer h (snd (set_began_allreduce v h w))) = 18"
  using assms by (simp add: set_began_allreduce_buffer(2))

lemma do_call_keeps_began:
  assumes "length (shared_buffer h w) = 18" "get_began_allreduce h w = Inr True"
    and "c \<noteq> Set_began_allreduce False"
  shows "length (shared_buffer (fst (do_call c (h, w))) (snd (do_call c (h, w)))) = 18 \<and>
         get_began_allreduce (fst (do_call c (h, w))) (snd (do_call c (h, w))) = Inr True"
proof (cases c)
  case (Set_scheduled_time t)
  then show ?thesis
    using assms set_scheduled_time_length [OF assms(1), of t]
      after_set_scheduled_time(4) [OF assms(1), of t] by simp
next
  case (Set_weight x)
  then show ?thesis using assms set_weight_keeps [OF assms(1), of x] by simp
next
  case (Set_stage s)
  then show ?thesis
    using assms set_stage_length [OF assms(1), of s] after_set_stage(4) [OF assms(1), of s]
    by simp
next
  case (Set_began_allreduce v)
  with assms(3) have "v" by simp
  with Set_began_allreduce show ?thesis
    using set_began_allreduce_length [OF assms(1), of v]
      after_set_began_allreduce(1) [OF assms(1), of v] by simp
next
  case (Attach_trigger t)
  then show ?thesis
    using assms
    by (simp add: attach_trigger_def shared_buffer_def get_began_allreduce_def)
next
  case Allow_allreduce
  then show ?thesis
    using assms getters_buffers [OF allow_allreduce_buffers [of h w] refl] by simp
next
  case (Cancel frames)
  then show ?thesis
    using assms getters_buffers [OF cancel_buffers [of frames h w] refl] by simp
qed

lemma do_calls_keep_began:
  assumes "length (shared_buffer (fst s) (snd s)) = 18"
    "get_began_allreduce (fst s) (snd s) = Inr True"
    "Set_began_allreduce False \<notin> set cs"
  shows "get_began_allreduce (fst (do_calls cs s)) (snd (do_calls cs s)) = Inr True"
  using assms
proof (induction cs arbitrary: s)
  case Nil
  then show ?case by simp
next
  case (Cons c cs)
  obtain h w where s: "s = (h, w)" by (cases s)
  from Cons.prems s have "c \<noteq> Set_began_allreduce False" by auto
  from do_call_keeps_began [OF _ _ this, of h w] Cons.prems s
  have "length (shared_buffer (fst (do_call c s)) (snd (do_call c s))) = 18"
    "get_began_allreduce (fst (do_call c s)) (snd (do_call c s)) = Inr True"
    by simp_all
  with Cons.IH [of "do_call c s"] Cons.prems(3) show ?case by simp
qed

text \<open>
  C5, as amended. Once \<^verbatim>\<open>began_allreduce\<close> reads true on a handle (whose tensor has
  its 18 bytes), it still reads true after any sequence of calls of the interface
  (the four setters, \<^verbatim>\<open>attach_trigger\<close>, \<^verbatim>\<open>allow_allreduce\<close>, \<^verbatim>\<open>cancel\<close>) in which
  \<^verbatim>\<open>began_allreduce = False\<close> does not occur. The setter of the flag itself has no
  check: it stores the value it is given, and the getter returns that value.
\<close>

theorem began_allreduce_reset_only_by_its_setter:
  assumes "length (shared_buffer h w) = 18" "get_began_allreduce h w = Inr True"
  shows "(Set_began_allreduce False \<notin> set cs \<longrightarrow>
          get_began_allreduce (fst (do_calls cs (h, w))) (snd (do_calls cs (h, w))) = Inr True) \<and>
         get_began_allreduce h (snd (set_began_allreduce v h w)) = Inr v"
  using do_calls_keep_began [of "(h, w)" cs] after_set_began_allreduce(1) [OF assms(1), of v] assms
  by simp

theorem began_allreduce_reset_only_by_its_setter_witness:
  "length (shared_buffer example_handle
     (snd (set_began_allreduce True example_handle example_world))) = 18 \<and>
   get_began_allreduce example_handle
     (snd (set_began_allreduce True example_handle example_world)) = Inr True \<and>
   Set_began_allreduce False \<notin>
     set [Set_stage RUNNING_ALLREDUCE, Set_weight 0x3FF0000000000000, Cancel 1000,
          Set_began_allreduce True] \<and>
   get_began_allreduce
     (fst (do_calls [Set_stage RUNNING_ALLREDUCE, Set_weight 0x3FF0000000000000, Cancel 1000,
                     Set_began_allreduce True]
        (example_handle, snd (set_began_allreduce True example_handle example_world))))
     (snd (do_calls [Set_stage RUNNING_ALLREDUCE, Set_weight 0x3FF0000000000000, Cancel 1000,
                     Set_began_allreduce True]
        (example_handle, snd (set_began_allreduce True example_handle example_world)))) =
     Inr True"
proof -
  note len = set_began_allreduce_length [OF example_length, of True]
  note began = after_set_began_allreduce(1) [OF example_length, of True]
  have notin: "Set_began_allreduce False \<notin>
     set [Set_stage RUNNING_ALLREDUCE, Set_weight 0x3FF0000000000000, Cancel 1000,
          Set_began_allreduce True]"
    by simp
  from began_allreduce_reset_only_by_its_setter [OF len began] notin len began
  show ?thesis by blast
qed

text \<open>
  C5 as stated fails: on the example handle, after \<^verbatim>\<open>began_allreduce = True\<close> the
  flag reads true, \<^verbatim>\<open>began_allreduce = False\<close> is accepted, and the flag then reads
  false.
\<close>

theorem began_allreduce_counterexample:
  "get_began_allreduce example_handle
     (snd (set_began_allreduce True example_handle example_world)) = Inr True \<and>
   fst (set_began_allreduce False example_handle
     (snd (set_began_allreduce True example_handle example_world))) = Inr () \<and>
   get_began_allreduce example_handle
     (snd (set_began_allreduce False example_handle
       (snd (set_began_allreduce True example_handle example_world)))) = Inr False"
proof -
  note len = set_began_allreduce_length [OF example_length, of True]
  show ?thesis
    using after_set_began_allreduce(1) [OF example_length, of True]
      set_began_allreduce_buffer(1) [OF len, of False]
      after_set_began_allreduce(1) [OF len, of False]
    by simp
qed

subsection \<open>Construction\<close>

lemma set_stage_other_handle:
  "s \<noteq> RUNNING_ALLREDUCE \<Longrightarrow> fst (snd (set_stage s h w)) = h"
  by (simp add: set_stage_def split: sum.split)

lemma torch_zeros_shared_length:
  assumes "torch_zeros_shared n w = (addr, w')" "attr_shared_buffer h = addr"
  shows "length (shared_buffer h w') = n"
  using assms by (auto simp: torch_zeros_shared_def shared_buffer_def)

lemma init_valid_weight:
  assumes "\<exists>r. valof weight = Fin r \<and> 0 \<le> r"
  shows "\<exists>h w'. StepControl_init scheduled_time deadline' allow_retries' weight gather_binary' w =
           (Inr h, w') \<and>
         length (shared_buffer h w') = 18 \<and> attr_trigger h = None \<and>
         get_stage h w' = Inr IDLE \<and> get_began_allreduce h w' = Inr False"
proof -
  from assms have valid: "float_ge_zero weight" "isfinite weight"
    using valid_weight_iff [of weight] by blast+
  obtain uid w1 where i1: "MPFuture_init w = (uid, w1)"
    by (cases "MPFuture_init w")
  obtain addr w2 where i2: "torch_zeros_shared 18 w1 = (addr, w2)"
    by (cases "torch_zeros_shared 18 w1")
  define h where "h = \<lparr>future_uid = uid, attr_gather_binary = gather_binary',
    attr_deadline = deadline', attr_allow_retries = allow_retries', attr_trigger = None,
    attr_shared_buffer = addr, can_modify = None\<rparr>"
  have len2: "length (shared_buffer h w2) = 18"
    by (rule torch_zeros_shared_length [OF i2]) (simp add: h_def)
  define w3 where "w3 = snd (snd (set_stage IDLE h w2))"
  have h1: "fst (snd (set_stage IDLE h w2)) = h"
    by (simp add: set_stage_other_handle)
  have s3: "set_stage IDLE h w2 = (Inr (), h, w3)"
    using set_stage_buffer(1) [OF len2, of IDLE] h1 by (simp add: w3_def prod_eq_iff)
  have len3: "length (shared_buffer h w3)  = 18"
    using set_stage_length [OF len2, of IDLE] h1 by (simp add: w3_def)
  have stage3: "get_stage h w3 = Inr IDLE"
    using after_set_stage(1) [OF len2, of IDLE] h1 by (simp add: w3_def)
  define w4 where "w4 = snd (set_scheduled_time scheduled_time h w3)"
  have s4: "set_scheduled_time scheduled_time h w3 = (Inr (), w4)"
    using set_scheduled_time_buffer(1) [OF len3, of scheduled_time] by (simp add: w4_def prod_eq_iff)
  have len4: "length (shared_buffer h w4) = 18"
    unfolding w4_def by (rule set_scheduled_time_length [OF len3])
  have stage4: "get_stage h w4 = Inr IDLE"
    unfolding w4_def using after_set_scheduled_time(3) [OF len3, of scheduled_time] stage3 by simp
  define w5 where "w5 = snd (set_weight weight h w4)"
  have s5: "set_weight weight h w4 = (Inr (), w5)"
    using set_weight_buffer(1) [OF len4 valid] by (simp add: w5_def prod_eq_iff)
  have len5: "length (shared_buffer h w5) = 18"
    unfolding w5_def by (rule set_weight_keeps(1) [OF len4])
  have stage5: "get_stage h w5 = Inr IDLE"
    unfolding w5_def using after_set_weight(3) [OF len4 valid] stage4 by simp
  define w6 where "w6 = snd (set_began_allreduce False h w5)"
  have s6: "set_began_allreduce False h w5 = (Inr (), w6)"
    using set_began_allreduce_buffer(1) [OF len5, of False] by (simp add: w6_def prod_eq_iff)
  have stage6: "get_stage h w6 = Inr IDLE"
    unfolding w6_def using after_set_began_allreduce(4) [OF len5, of False] stage5 by simp
  have len6: "length (shared_buffer h w6) = 18"
    unfolding w6_def by (rule set_began_allreduce_length [OF len5])
  have trigger: "attr_trigger h = None"
    by (simp add: h_def)
  have began6: "get_began_allreduce h w6 = Inr False"
    unfolding w6_def by (rule after_set_began_allreduce(1) [OF len5])
  have "StepControl_init scheduled_time deadline' allow_retries' weight gather_binary' w =
          (Inr h, w6)"
    by (simp add: StepControl_init_def i1 i2 h_def [symmetric] s3 s4 s5 s6)
  with len6 trigger stage6 began6 show ?thesis by blast
qed

text \<open>
  C8. Whatever the world and the other arguments, the constructor called with a weight
  that is a number \<open>r\<close> with \<open>0 \<le> r\<close> returns a handle, and on that handle the
  stage reads \<^verbatim>\<open>IDLE\<close> and \<^verbatim>\<open>began_allreduce\<close> reads false.
\<close>

theorem init_stage_idle_not_begun:
  assumes "\<exists>r. valof weight = Fin r \<and> 0 \<le> r"
  shows "\<exists>h w'. StepControl_init scheduled_time deadline' allow_retries' weight gather_binary' w =
           (Inr h, w') \<and>
         get_stage h w' = Inr IDLE \<and> get_began_allreduce h w' = Inr False"
  using init_valid_weight [OF assms] by blast

theorem init_stage_idle_not_begun_witness:
  "valof 0x3FF0000000000000 = Fin 1 \<and>
   (\<exists>h w'. StepControl_init 0 0x4024000000000000 True 0x3FF0000000000000 [] example_world =
           (Inr h, w') \<and>
         get_stage h w' = Inr IDLE \<and> get_began_allreduce h w' = Inr False)"
proof -
  have "\<exists>r. valof 0x3FF0000000000000 = Fin r \<and> 0 \<le> r"
    by (simp add: valof_one)
  from init_stage_idle_not_begun [OF this] valof_one show ?thesis by blast
qed

subsection \<open>Pickling\<close>

lemma setstate_getstate:
  "setstate (getstate h) self = h\<lparr>can_modify := can_modify self\<rparr>"
  by (simp add: setstate_def getstate_def)

text \<open>
  C9. The handle restored by \<^verbatim>\<open>__setstate__\<close> from the dict of \<^verbatim>\<open>__getstate__\<close> has the
  gather_binary, deadline and allow_retries of the original, the same trigger and the
  same tensor; in every world each getter returns through it what it returns through
  the original, and after a write through the original (to a tensor that has its 18
  bytes) the restored handle reads the value written.
\<close>

theorem pickling_keeps_the_shared_block:
  "gather_binary (setstate (getstate h) self) = gather_binary h \<and>
   deadline (setstate (getstate h) self) = deadline h \<and>
   allow_retries (setstate (getstate h) self) = allow_retries h \<and>
   attr_trigger (setstate (getstate h) self) = attr_trigger h \<and>
   attr_shared_buffer (setstate (getstate h) self) = attr_shared_buffer h \<and>
   get_scheduled_time (setstate (getstate h) self) w = get_scheduled_time h w \<and>
   get_weight (setstate (getstate h) self) w = get_weight h w \<and>
   get_stage (setstate (getstate h) self) w = get_stage h w \<and>
   get_began_allreduce (setstate (getstate h) self) w = get_began_allreduce h w \<and>
   (length (shared_buffer h w) = 18 \<longrightarrow>
      get_scheduled_time (setstate (getstate h) self) (snd (set_scheduled_time t h w)) = Inr t \<and>
      ((\<exists>r. valof x = Fin r \<and> 0 \<le> r) \<longrightarrow>
        get_weight (setstate (getstate h) self) (snd (set_weight x h w)) = Inr x) \<and>
      get_stage (setstate (getstate h) self) (snd (snd (set_stage s h w))) = Inr s \<and>
      get_began_allreduce (setstate (getstate h) self) (snd (set_began_allreduce b h w)) = Inr b)"
proof -
  define h' where "h' = setstate (getstate h) self"
  have h': "h' = h\<lparr>can_modify := can_modify self\<rparr>"
    unfolding h'_def by (rule setstate_getstate)
  have attrs: "gather_binary h' = gather_binary h" "deadline h' = deadline h"
    "allow_retries h' = allow_retries h" "attr_trigger h' = attr_trigger h"
    "attr_shared_buffer h' = attr_shared_buffer h"
    by (simp_all add: h' gather_binary_def deadline_def allow_retries_def)
  have same: "get_scheduled_time h' v = get_scheduled_time h v"
    "get_weight h' v = get_weight h v" "get_stage h' v = get_stage h v"
    "get_began_allreduce h' v = get_began_allreduce h v" for v
    by (simp_all add: get_scheduled_time_def get_weight_def get_stage_def
        get_began_allreduce_def shared_buffer_cong [OF attrs(5)])
  have written: "get_scheduled_time h' (snd (set_scheduled_time t h w)) = Inr t \<and>
      ((\<exists>r. valof x = Fin r \<and> 0 \<le> r) \<longrightarrow> get_weight h' (snd (set_weight x h w)) = Inr x) \<and>
      get_stage h' (snd (snd (set_stage s h w))) = Inr s \<and>
      get_began_allreduce h' (snd (set_began_allreduce b h w)) = Inr b"
    if len: "length (shared_buffer h w) = 18"
  proof -
    have "get_stage (fst (snd (set_stage s h w))) (snd (snd (set_stage s h w))) = Inr s"
      by (rule after_set_stage(1) [OF len])
    then have stage: "get_stage h (snd (snd (set_stage s h w))) = Inr s"
      by (simp add: get_stage_def shared_buffer_cong [OF set_stage_buffer(2) [OF len]])
    have weight: "get_weight h (snd (set_weight x h w)) = Inr x"
      if "\<exists>r. valof x = Fin r \<and> 0 \<le> r"
    proof -
      from that have "float_ge_zero x" "isfinite x"
        using valid_weight_iff [of x] by blast+
      then show ?thesis by (rule after_set_weight(1) [OF len])
    qed
    from stage weight show ?thesis
      using after_set_scheduled_time(1) [OF len, of t] after_set_began_allreduce(1) [OF len, of b]
      by (simp add: same)
  qed
  from attrs same [of w] written show ?thesis
    unfolding h'_def by blast
qed

theorem pickling_keeps_the_shared_block_witness:
  "length (shared_buffer example_handle example_world) = 18 \<and>
   valof 0x3FF0000000000000 = Fin 1 \<and>
   attr_shared_buffer (setstate (getstate example_handle) example_handle) =
     attr_shared_buffer example_handle \<and>
   get_weight (setstate (getstate example_handle) example_handle)
     (snd (set_weight 0x3FF0000000000000 example_handle example_world)) =
     Inr 0x3FF0000000000000 \<and>
   get_stage (setstate (getstate example_handle) example_handle)
     (snd (snd (set_stage FINISHED example_handle example_world))) = Inr FINISHED"
  using pickling_keeps_the_shared_block [of example_handle example_handle example_world
      _ "0x3FF0000000000000" FINISHED]
    example_length valof_one
  by simp

subsection \<open>The timeout\<close>

lemma pymax_zero_nonneg: "fval_le (Fin 0) (pymax (Fin 0) x)"
  by (cases x) (simp_all add: pymax_def)

lemma pymax_zero_mono: "fval_le x y \<Longrightarrow> fval_le (pymax (Fin 0) x) (pymax (Fin 0) y)"
  by (cases x; cases y) (auto simp: pymax_def)

lemma pymax_zero_Fin: "pymax (Fin 0) (Fin r) = Fin (max 0 r)"
  by (simp add: pymax_def max_def)

lemma pymax_zero_low:
  "pymax (Fin 0) NaN = Fin 0" "pymax (Fin 0) NInf = Fin 0" "pymax (Fin 0) PInf = PInf"
  by (simp_all add: pymax_def)

lemma pymax_zero_le_PInf: "fval_le (pymax (Fin 0) x) PInf"
  by (cases x) (simp_all add: pymax_def)

lemma fsub_antitone:
  assumes "monotone_rounding rnd" "fval_le a b"
  shows "fval_le (pymax (Fin 0) (fsub rnd d b)) (pymax (Fin 0) (fsub rnd d a))"
proof (cases "\<exists>x y z. d = Fin x \<and> a = Fin y \<and> b = Fin z")
  case True
  then obtain x y z where e: "d = Fin x" "a = Fin y" "b = Fin z" by blast
  with assms(2) have "x - z \<le> x - y" by simp
  with assms(1) have "fval_le (rnd (x - z)) (rnd (x - y))"
    by (simp add: monotone_rounding_def)
  then show ?thesis using e by (simp add: pymax_zero_mono)
next
  case False
  with assms(2) show ?thesis
    by (cases d; cases a; cases b) (simp_all add: pymax_zero_low pymax_zero_nonneg pymax_zero_le_PInf)
qed

text \<open>
  C6. For every handle, every reading of the clock and every rounding that keeps the
  order: when the deadline and the clock are numbers \<open>d\<close> and \<open>t\<close> and the rounded
  difference is the number \<open>r\<close>, \<^verbatim>\<open>get_timeout()\<close> is exactly \<open>max 0 r\<close>; the result
  is never below 0 (nor a NaN), also when the deadline or the clock is an infinity or
  a NaN; and of two readings \<open>t1 \<le> t2\<close> of the clock the later gives the smaller or
  equal timeout.
\<close>

theorem get_timeout_nonneg_antitone:
  assumes "monotone_rounding rnd"
  shows "(valof (deadline h) = Fin d \<and> valof now = Fin t \<and> rnd (d - t) = Fin r \<longrightarrow>
            get_timeout rnd now h = Fin (max 0 r)) \<and>
         fval_le (Fin 0) (get_timeout rnd now h) \<and>
         (fval_le (valof t1) (valof t2) \<longrightarrow>
            fval_le (get_timeout rnd t2 h) (get_timeout rnd t1 h))"
  using fsub_antitone [OF assms, of "valof t1" "valof t2" "valof (deadline h)"]
  by (auto simp: get_timeout_def pymax_zero_nonneg pymax_zero_Fin)

theorem get_timeout_nonneg_antitone_witness:
  "monotone_rounding Fin \<and>
   valof (deadline example_handle) = Fin 10 \<and> valof 0x3FF0000000000000 = Fin 1 \<and>
   get_timeout Fin 0x3FF0000000000000 example_handle = Fin 9 \<and>
   valof 0 = Fin 0 \<and>
   fval_le (get_timeout Fin 0x3FF0000000000000 example_handle)
     (get_timeout Fin 0 example_handle)"
proof -
  have m: "monotone_rounding Fin"
    by (simp add: monotone_rounding_def)
  have d: "valof (deadline example_handle) = Fin 10"
    by (simp add: deadline_def example_handle_def valof_ten)
  from get_timeout_nonneg_antitone [OF m, of example_handle 10 "0x3FF0000000000000" 1 9 0
      "0x3FF0000000000000"] m d valof_one valof_zero
  show ?thesis by auto
qed

subsection \<open>The trigger\<close>

text \<open>
  C2. The claim: a second \<^verbatim>\<open>allow_allreduce()\<close> is a no-op that only warns. On the
  example handle with trigger 1 attached, the first call resolves the trigger; the
  second logs the warning and then calls \<^verbatim>\<open>set_result\<close> on the resolved trigger all
  the same, which a one-shot future refuses: the call ends in InvalidStateError.
\<close>

theorem allow_allreduce_twice_raises:
  "attach_trigger 1 example_handle = Inr (example_handle\<lparr>attr_trigger := Some 1\<rparr>) \<and>
   fst (allow_allreduce (example_handle\<lparr>attr_trigger := Some 1\<rparr>) example_world) = Inr () \<and>
   fst (allow_allreduce (example_handle\<lparr>attr_trigger := Some 1\<rparr>)
     (snd (allow_allreduce (example_handle\<lparr>attr_trigger := Some 1\<rparr>) example_world))) =
     Inl InvalidStateError \<and>
   warnings (snd (allow_allreduce (example_handle\<lparr>attr_trigger := Some 1\<rparr>)
     (snd (allow_allreduce (example_handle\<lparr>attr_trigger := Some 1\<rparr>) example_world)))) =
     [''Trigger is already set'']"
  by (simp add: attach_trigger_def allow_allreduce_def MPFuture_done_def MPFuture_set_result_def
      logger_warning_def example_handle_def example_world_def Let_def)

subsection \<open>Cancellation\<close>

text \<open>
  C1. The claim: \<^verbatim>\<open>cancel()\<close> cancels the trigger, cancels the handle's own future,
  terminates and returns. The code calls itself instead of the base class: whatever
  the recursion limit, the handle and the world, the call ends in RecursionError and
  returns nothing.
\<close>

theorem cancel_never_returns: "fst (cancel frames h w) = Inl RecursionError"
  by (induction frames arbitrary: w) (simp_all add: Let_def)

subsection \<open>Further properties of the interface\<close>

lemma init_result_handle:
  assumes "StepControl_init scheduled_time deadline' allow_retries' weight gather_binary' w =
             (Inr h, w')"
  shows "attr_trigger h = None" "can_modify h = None" "deadline h = deadline'"
    "gather_binary h = gather_binary'" "allow_retries h = allow_retries'"
  using assms
  by (auto simp: StepControl_init_def Let_def set_stage_def deadline_def gather_binary_def
      allow_retries_def split: prod.splits sum.splits)

text \<open>
  A trigger is attached once: on a handle without a trigger \<^verbatim>\<open>attach_trigger\<close> stores
  it, and a second \<^verbatim>\<open>attach_trigger\<close> on the result raises AssertionError.
\<close>

theorem attach_trigger_only_once:
  assumes "attr_trigger h = None"
  shows "attach_trigger t h = Inr (h\<lparr>attr_trigger := Some t\<rparr>) \<and>
         attach_trigger t' (h\<lparr>attr_trigger := Some t\<rparr>) = Inl AssertionError"
  using assms by (simp add: attach_trigger_def)

theorem attach_trigger_only_once_witness:
  "attr_trigger example_handle = None \<and>
   attach_trigger 1 example_handle = Inr (example_handle\<lparr>attr_trigger := Some 1\<rparr>) \<and>
   attach_trigger 2 (example_handle\<lparr>attr_trigger := Some 1\<rparr>) = Inl AssertionError"
proof -
  have n: "attr_trigger example_handle = None"
    by (simp add: example_handle_def)
  from attach_trigger_only_once [OF n, of 1 2] n show ?thesis by simp
qed

text \<open>
  On a handle as the constructor returns it (no trigger attached yet)
  \<^verbatim>\<open>allow_allreduce\<close> raises AssertionError and changes nothing.
\<close>

theorem allow_allreduce_needs_trigger:
  assumes "StepControl_init scheduled_time deadline' allow_retries' weight gather_binary' w =
             (Inr h, w')"
  shows "allow_allreduce h w' = (Inl AssertionError, w')"
  using init_result_handle(1) [OF assms] by (simp add: allow_allreduce_def)

theorem allow_allreduce_needs_trigger_witness:
  "\<exists>h w'. StepControl_init 0 0x4024000000000000 True 0x3FF0000000000000 [] example_world =
            (Inr h, w') \<and> allow_allreduce h w' = (Inl AssertionError, w')"
proof -
  have "\<exists>r. valof 0x3FF0000000000000 = Fin r \<and> 0 \<le> r"
    by (simp add: valof_one)
  from init_valid_weight [OF this]
  obtain h w' where
    i: "StepControl_init 0 0x4024000000000000 True 0x3FF0000000000000 [] example_world = (Inr h, w')"
    by blast
  from allow_allreduce_needs_trigger [OF i] i show ?thesis by blast
qed

text \<open>
  The constructor called with a weight that is negative, an infinity or a NaN raises
  the AssertionError of the weight setter.
\<close>

theorem init_rejects_invalid_weight:
  assumes "\<not> (\<exists>r. valof weight = Fin r \<and> 0 \<le> r)"
  shows "fst (StepControl_init scheduled_time deadline' allow_retries' weight gather_binary' w) =
           Inl AssertionError"
proof -
  from assms have invalid: "\<not> (float_ge_zero weight \<and> isfinite weight)"
    by (simp add: valid_weight_iff)
  obtain uid w1 where i1: "MPFuture_init w = (uid, w1)"
    by (cases "MPFuture_init w")
  obtain addr w2 where i2: "torch_zeros_shared 18 w1 = (addr, w2)"
    by (cases "torch_zeros_shared 18 w1")
  define h where "h = \<lparr>future_uid = uid, attr_gather_binary = gather_binary',
    attr_deadline = deadline', attr_allow_retries = allow_retries', attr_trigger = None,
    attr_shared_buffer = addr, can_modify = None\<rparr>"
  have len2: "length (shared_buffer h w2) = 18"
    by (rule torch_zeros_shared_length [OF i2]) (simp add: h_def)
  define w3 where "w3 = snd (snd (set_stage IDLE h w2))"
  have h1: "fst (snd (set_stage IDLE h w2)) = h"
    by (simp add: set_stage_other_handle)
  have s3: "set_stage IDLE h w2 = (Inr (), h, w3)"
    using set_stage_buffer(1) [OF len2, of IDLE] h1 by (simp add: w3_def prod_eq_iff)
  have len3: "length (shared_buffer h w3)  = 18"
    using set_stage_length [OF len2, of IDLE] h1 by (simp add: w3_def)
  define w4 where "w4 = snd (set_scheduled_time scheduled_time h w3)"
  have s4: "set_scheduled_time scheduled_time h w3 = (Inr (), w4)"
    using set_scheduled_time_buffer(1) [OF len3, of scheduled_time] by (simp add: w4_def prod_eq_iff)
  have s5: "set_weight weight h w4 = (Inl AssertionError, w4)"
    by (rule set_weight_invalid [OF invalid])
  show ?thesis
    by (simp add: StepControl_init_def i1 i2 h_def [symmetric] s3 s4 s5)
qed

theorem init_rejects_invalid_weight_witness:
  "valof 0xBFF0000000000000 = Fin (- 1) \<and>
   fst (StepControl_init 0 0x4024000000000000 True 0xBFF0000000000000 [] example_world) =
     Inl AssertionError"
proof -
  have "\<not> (\<exists>r. valof 0xBFF0000000000000 = Fin r \<and> (0::real) \<le> r)"
    by (simp add: valof_minus_one)
  from init_rejects_invalid_weight [OF this] valof_minus_one show ?thesis by simp
qed

text \<open>
  Before all-reduce has begun, \<^verbatim>\<open>scheduled_time = t\<close> with \<open>t\<close> at or after the
  deadline succeeds and stores \<open>t\<close>; the only feedback is one warning in the log.
\<close>

theorem scheduled_time_past_deadline_warns:
  assumes "length (shared_buffer h w) = 18" "get_began_allreduce h w = Inr False"
    "float_ge t (deadline h)"
  shows "fst (set_scheduled_time t h w) = Inr () \<and>
         get_scheduled_time h (snd (set_scheduled_time t h w)) = Inr t \<and>
         warnings (snd (set_scheduled_time t h w)) = warnings w @
           [''Changing scheduled time to after deadline, averaging will likely fail due to timeout.'']"
proof -
  have "warnings (snd (set_scheduled_time t h w)) = warnings w @
           [''Changing scheduled time to after deadline, averaging will likely fail due to timeout.'']"
    using assms
    by (simp add: set_scheduled_time_def Let_def logger_warning_def store_buffer_def
        pack_into_slice_def slice_def shared_buffer_def)
  then show ?thesis
    using set_scheduled_time_buffer(1) [OF assms(1), of t]
      after_set_scheduled_time(1) [OF assms(1), of t] by simp
qed

theorem scheduled_time_past_deadline_warns_witness:
  "length (shared_buffer example_handle example_world) = 18 \<and>
   get_began_allreduce example_handle example_world = Inr False \<and>
   float_ge 0x4024000000000000 (deadline example_handle) \<and>
   fst (set_scheduled_time 0x4024000000000000 example_handle example_world) = Inr () \<and>
   warnings (snd (set_scheduled_time 0x4024000000000000 example_handle example_world)) =
     [''Changing scheduled time to after deadline, averaging will likely fail due to timeout.'']"
proof -
  have began: "get_began_allreduce example_handle example_world = Inr False"
    by (simp add: get_began_allreduce_def tensor_item_def shared_buffer_def example_world_def)
  have late: "float_ge 0x4024000000000000 (deadline example_handle)"
    by (simp add: float_ge_def deadline_def example_handle_def valof_ten)
  have "warnings example_world = []"
    by (simp add: example_world_def)
  with scheduled_time_past_deadline_warns [OF example_length began late] example_length began late
  show ?thesis by simp
qed

end
